theory Spec2Isabelle
  imports Main
begin

section \<open>Strings, environment and exceptions\<close>

text \<open>
  A Python \<open>str\<close> is a sequence of Unicode code points, and \<open>len\<close> and slicing count
  code points. The source uses characters outside ASCII, so a string is a list of code
  points; \<open>ascii\<close> embeds an ASCII literal.
\<close>

type_synonym ustr = "nat list"

definition ascii :: "string \<Rightarrow> ustr" where
  "ascii s = map of_char s"

text \<open>Truthiness of a \<open>str\<close> and of the \<open>Optional[str]\<close> that \<open>os.getenv\<close> returns.\<close>

definition truthy :: "ustr \<Rightarrow> bool" where
  "truthy s = (s \<noteq> [])"

fun truthy_opt :: "ustr option \<Rightarrow> bool" where
  "truthy_opt None = False"
| "truthy_opt (Some s) = truthy s"

text \<open>\<open>x or d\<close> for an optional string \<open>x\<close> and a string \<open>d\<close>.\<close>

fun or_else :: "ustr option \<Rightarrow> ustr \<Rightarrow> ustr" where
  "or_else None d = d"
| "or_else (Some s) d = (if truthy s then s else d)"

text \<open>The process environment: \<open>os.getenv k\<close> is \<open>env k\<close>.\<close>

type_synonym environ = "ustr \<rightharpoonup> ustr"

definition getenv_default :: "environ \<Rightarrow> ustr \<Rightarrow> ustr \<Rightarrow> ustr" where
  "getenv_default env k d = (case env k of None \<Rightarrow> d | Some v \<Rightarrow> v)"

text \<open>
  A string can be encoded as UTF-8 when it holds no surrogate (a code point from D800
  to DFFF, which in a \<open>str\<close> always stands alone). The encoding of a mail body also
  lets through the surrogates from DC80 to DCFF, which stand for undecodable bytes.
\<close>

definition utf8 :: "ustr \<Rightarrow> bool" where
  "utf8 s = list_all (\<lambda>c. c < 0xD800 \<or> 0xDFFF < c) s"

definition mime_encodable :: "ustr \<Rightarrow> bool" where
  "mime_encodable s =
     list_all (\<lambda>c. c < 0xD800 \<or> (0xDC80 \<le> c \<and> c \<le> 0xDCFF) \<or> 0xDFFF < c) s"

text \<open>
  An exception that a collaborator raises (the database driver, the SMTP library):
  \<open>Exception m\<close> is an exception \<open>e\<close> with \<open>str(e) = m\<close>.
\<close>

datatype exn = Exception ustr

fun str_exn :: "exn \<Rightarrow> ustr" where
  "str_exn (Exception m) = m"

text \<open>
  An exception that the request raises where nothing catches it: \<open>ValueError s\<close> is
  the error of \<open>int\<close> on the literal \<open>s\<close>, \<open>UnicodeEncodeError\<close> the error of encoding
  a string that holds a surrogate. Its message is never read.
\<close>

datatype fault = ValueError ustr | UnicodeEncodeError

section \<open>The diagnostic endpoint \<open>GET /test\<close>\<close>

record diagnostic =
  backend :: ustr
  database :: ustr
  database_url :: ustr
  database_name :: ustr
  connection_status :: ustr
  collections :: "ustr list"

text \<open>
  The module-level handle \<open>db\<close> comes from the module \<open>database\<close>; it is \<open>None\<close> or an
  object. What the endpoint uses of the object is the outcome of reading its attribute
  \<open>name\<close> and the outcome of \<open>list_collection_names()\<close>.
\<close>

datatype 'a attr = Absent | Present 'a | Raising exn

record db_handle =
  db_name :: "ustr attr"
  list_collection_names :: "exn + ustr list"

definition check_mark :: ustr where "check_mark = [0x2705]"
definition cross_mark :: ustr where "cross_mark = [0x274C]"
definition warning_sign :: ustr where "warning_sign = [0x26A0, 0xFE0F]"

definition not_set :: ustr where
  "not_set = cross_mark @ ascii '' Not Set''"

definition initial_response :: diagnostic where
  "initial_response =
     \<lparr> backend = check_mark @ ascii '' Running'',
       database = cross_mark @ ascii '' Not Available'',
       database_url = not_set,
       database_name = not_set,
       connection_status = ascii ''Not Connected'',
       collections = [] \<rparr>"

text \<open>Lines 54 and 55: the handle exists, and the connection string is probed.\<close>

definition url_probe :: "environ \<Rightarrow> diagnostic \<Rightarrow> diagnostic" where
  "url_probe env r =
     r\<lparr> database := check_mark @ ascii '' Available'',
        database_url := (if truthy_opt (env (ascii ''DATABASE_URL''))
                         then check_mark @ ascii '' Set'' else not_set) \<rparr>"

text \<open>
  Line 56: \<open>db.name if hasattr(db, 'name') else (os.getenv("DATABASE_NAME") or "Unknown")\<close>.
  \<open>hasattr\<close> answers False on an AttributeError only; any other exception of the
  attribute read leaves the statement.
\<close>

definition name_probe :: "environ \<Rightarrow> db_handle \<Rightarrow> exn + ustr" where
  "name_probe env d =
     (case db_name d of
        Present n \<Rightarrow> Inr n
      | Absent \<Rightarrow> Inr (or_else (env (ascii ''DATABASE_NAME'')) (ascii ''Unknown''))
      | Raising e \<Rightarrow> Inl e)"

text \<open>Lines 57 to 63: the inner \<open>try\<close> around the listing of collections.\<close>

definition list_probe :: "db_handle \<Rightarrow> diagnostic \<Rightarrow> diagnostic" where
  "list_probe d r =
     (case list_collection_names d of
        Inr cs \<Rightarrow>
          r\<lparr> collections := take 10 cs,
             database := check_mark @ ascii '' Connected & Working'',
             connection_status := ascii ''Connected'' \<rparr>
      | Inl e \<Rightarrow>
          r\<lparr> database := warning_sign @ ascii '' Connected but Error: '' @ take 80 (str_exn e) \<rparr>)"

text \<open>
  The body of the outer \<open>try\<close>. The dictionary is mutated in place, so an exception
  leaves the body with the updates made so far: the body returns the dictionary and
  the exception, if one was raised.
\<close>

definition test_body :: "environ \<Rightarrow> db_handle option \<Rightarrow> diagnostic \<Rightarrow> diagnostic \<times> exn option" where
  "test_body env db r =
     (case db of
        Some d \<Rightarrow>
          (let r1 = url_probe env r in
           case name_probe env d of
             Inl e \<Rightarrow> (r1, Some e)
           | Inr n \<Rightarrow> (list_probe d (r1\<lparr> database_name := n \<rparr>), None))
      | None \<Rightarrow>
          (r\<lparr> database := warning_sign @ ascii '' Available but not initialized'' \<rparr>, None))"

definition test_database :: "environ \<Rightarrow> db_handle option \<Rightarrow> diagnostic" where
  "test_database env db =
     (case test_body env db initial_response of
        (r, None) \<Rightarrow> r
      | (r, Some e) \<Rightarrow> r\<lparr> database := cross_mark @ ascii '' Error: '' @ take 80 (str_exn e) \<rparr>)"

section \<open>The contact form \<open>POST /api/contact\<close>\<close>

subsection \<open>The submission and its validation\<close>

record ContactSubmission =
  name :: ustr
  email :: ustr
  phone :: "ustr option"
  business :: "ustr option"
  budget :: "ustr option"
  description :: ustr

text \<open>
  The request body before validation, a JSON object: each of the six keys of the
  model is left out, is \<open>null\<close>, or holds a string, and \<open>raw_other\<close> lists the strings
  that stand elsewhere in the body (the names and values of other keys). Values of the
  six keys that are neither null nor strings are left out of the model.
\<close>

datatype json_field = Omitted | Null | Str ustr

record raw_submission =
  raw_name :: json_field
  raw_email :: json_field
  raw_phone :: json_field
  raw_business :: json_field
  raw_budget :: json_field
  raw_description :: json_field
  raw_other :: "ustr list"

datatype field = Name | Email | Phone | Business | Budget | Description

datatype constraint =
  Missing | StringType | StringUnicode | StringTooShort nat | StringTooLong nat | EmailSyntax

type_synonym violation = "field \<times> constraint"

text \<open>
  The framework validates the body against the declared model before it calls the
  handler, as version 2 of the validation library does: every field is checked, and
  the violations of all fields are collected in the order of the declaration. A
  string is first read as UTF-8, which a surrogate makes fail; then
  \<open>str = Field(..., min_length=lo, max_length=hi)\<close> bounds the length of a required
  string, and \<open>Optional[str] = None\<close> may be left out or null.
\<close>

fun required_str :: "nat \<Rightarrow> nat option \<Rightarrow> json_field \<Rightarrow> constraint + ustr" where
  "required_str lo hi Omitted = Inl Missing"
| "required_str lo hi Null = Inl StringType"
| "required_str lo hi (Str s) =
     (if \<not> utf8 s then Inl StringUnicode
      else if length s < lo then Inl (StringTooShort lo)
      else case hi of
        None \<Rightarrow> Inr s
      | Some h \<Rightarrow> if h < length s then Inl (StringTooLong h) else Inr s)"

fun optional_str :: "json_field \<Rightarrow> constraint + ustr option" where
  "optional_str Omitted = Inr None"
| "optional_str Null = Inr None"
| "optional_str (Str s) = (if \<not> utf8 s then Inl StringUnicode else Inr (Some s))"

text \<open>
  \<open>EmailStr\<close> is a string that the email validation library then checks; the library
  is not part of the repository: \<open>ev s\<close> is its answer on the string \<open>s\<close>, the
  normalised address or \<open>None\<close> when the syntax is refused.
\<close>

fun email_str :: "(ustr \<Rightarrow> ustr option) \<Rightarrow> json_field \<Rightarrow> constraint + ustr" where
  "email_str ev Omitted = Inl Missing"
| "email_str ev Null = Inl StringType"
| "email_str ev (Str s) =
     (if \<not> utf8 s then Inl StringUnicode
      else case ev s of None \<Rightarrow> Inl EmailSyntax | Some a \<Rightarrow> Inr a)"

fun violations_of :: "field \<Rightarrow> constraint + 'a \<Rightarrow> violation list" where
  "violations_of f (Inl c) = [(f, c)]"
| "violations_of f (Inr v) = []"

definition violations :: "(ustr \<Rightarrow> ustr option) \<Rightarrow> raw_submission \<Rightarrow> violation list" where
  "violations ev raw =
     violations_of Name (required_str 2 (Some 120) (raw_name raw)) @
     violations_of Email (email_str ev (raw_email raw)) @
     violations_of Phone (optional_str (raw_phone raw)) @
     violations_of Business (optional_str (raw_business raw)) @
     violations_of Budget (optional_str (raw_budget raw)) @
     violations_of Description (required_str 10 None (raw_description raw))"

definition validate :: "(ustr \<Rightarrow> ustr option) \<Rightarrow> raw_submission \<Rightarrow> violation list + ContactSubmission" where
  "validate ev raw =
     (case required_str 2 (Some 120) (raw_name raw) of
        Inl c \<Rightarrow> Inl (violations ev raw)
      | Inr n \<Rightarrow>
     (case email_str ev (raw_email raw) of
        Inl c \<Rightarrow> Inl (violations ev raw)
      | Inr e \<Rightarrow>
     (case optional_str (raw_phone raw) of
        Inl c \<Rightarrow> Inl (violations ev raw)
      | Inr p \<Rightarrow>
     (case optional_str (raw_business raw) of
        Inl c \<Rightarrow> Inl (violations ev raw)
      | Inr b \<Rightarrow>
     (case optional_str (raw_budget raw) of
        Inl c \<Rightarrow> Inl (violations ev raw)
      | Inr g \<Rightarrow>
     (case required_str 10 None (raw_description raw) of
        Inl c \<Rightarrow> Inl (violations ev raw)
      | Inr d \<Rightarrow>
          Inr \<lparr> name = n, email = e, phone = p, business = b, budget = g,
                description = d \<rparr>))))))"

subsection \<open>Reading an integer\<close>

text \<open>
  \<open>int(s)\<close> on a string, base 10, as CPython 3.11 does it. Whitespace around the
  literal is dropped: the ASCII characters 9 to 13 and 32, and the whitespace of
  Unicode outside ASCII. Then comes an optional sign, then decimal digits, where a
  single underscore may stand between two digits. A decimal digit is a character of
  the category Nd; in Unicode 14 these are 66 runs of ten characters, the digits 0 to
  9 in order, and \<open>decimal_zeros\<close> lists where the runs begin. A literal of more than
  4300 digits is refused (the default of the interpreter's limit). Anything that is
  refused raises ValueError.
\<close>

definition is_space :: "nat \<Rightarrow> bool" where
  "is_space c =
     ((9 \<le> c \<and> c \<le> 13) \<or> c = 32 \<or> c = 0x85 \<or> c = 0xA0 \<or> c = 0x1680 \<or>
      (0x2000 \<le> c \<and> c \<le> 0x200A) \<or> c = 0x2028 \<or> c = 0x2029 \<or> c = 0x202F \<or>
      c = 0x205F \<or> c = 0x3000)"

definition decimal_zeros :: "nat list" where
  "decimal_zeros =
     [
      0x30, 0x660, 0x6F0, 0x7C0, 0x966, 0x9E6, 0xA66, 0xAE6,
      0xB66, 0xBE6, 0xC66, 0xCE6, 0xD66, 0xDE6, 0xE50, 0xED0,
      0xF20, 0x1040, 0x1090, 0x17E0, 0x1810, 0x1946, 0x19D0, 0x1A80,
      0x1A90, 0x1B50, 0x1BB0, 0x1C40, 0x1C50, 0xA620, 0xA8D0, 0xA900,
      0xA9D0, 0xA9F0, 0xAA50, 0xABF0, 0xFF10, 0x104A0, 0x10D30, 0x11066,
      0x110F0, 0x11136, 0x111D0, 0x112F0, 0x11450, 0x114D0, 0x11650, 0x116C0,
      0x11730, 0x118E0, 0x11950, 0x11C50, 0x11D50, 0x11DA0, 0x16A60, 0x16AC0,
      0x16B50, 0x1D7CE, 0x1D7D8, 0x1D7E2, 0x1D7EC, 0x1D7F6, 0x1E140, 0x1E2F0,
      0x1E950, 0x1FBF0
     ]"

definition decimal_value :: "nat \<Rightarrow> nat option" where
  "decimal_value c =
     map_option (\<lambda>z. c - z) (find (\<lambda>z. z \<le> c \<and> c < z + 10) decimal_zeros)"

definition is_digit :: "nat \<Rightarrow> bool" where
  "is_digit c = (decimal_value c \<noteq> None)"

definition strip :: "ustr \<Rightarrow> ustr" where
  "strip s = rev (dropWhile is_space (rev (dropWhile is_space s)))"

fun digits :: "nat \<Rightarrow> ustr \<Rightarrow> nat option" where
  "digits acc [] = Some acc"
| "digits acc [c] =
     (case decimal_value c of None \<Rightarrow> None | Some v \<Rightarrow> Some (10 * acc + v))"
| "digits acc (c # d # cs) =
     (case decimal_value c of
        Some v \<Rightarrow> digits (10 * acc + v) (d # cs)
      | None \<Rightarrow> if c = 95 \<and> is_digit d then digits acc (d # cs) else None)"

fun unsigned :: "ustr \<Rightarrow> nat option" where
  "unsigned [] = None"
| "unsigned (c # cs) =
     (case decimal_value c of None \<Rightarrow> None | Some v \<Rightarrow> digits v cs)"

fun signed :: "ustr \<Rightarrow> int option" where
  "signed [] = None"
| "signed (c # cs) =
     (if c = 45 then map_option (\<lambda>n. - int n) (unsigned cs)
      else if c = 43 then map_option int (unsigned cs)
      else map_option int (unsigned (c # cs)))"

definition py_int :: "ustr \<Rightarrow> fault + int" where
  "py_int s =
     (if 4300 < length (filter is_digit s) then Inl (ValueError s)
      else case signed (strip s) of None \<Rightarrow> Inl (ValueError s) | Some n \<Rightarrow> Inr n)"

subsection \<open>The notifier\<close>

record email_result =
  sent :: bool
  reason :: "ustr option"

record MIMEText =
  body :: ustr
  Subject :: ustr
  From :: ustr
  To :: ustr

text \<open>
  The mail server, as far as the session of the notifier sees it: the outcome of each
  call of \<open>smtplib\<close>, \<open>None\<close> when the call returns and the exception when it raises.
  The outcome of \<open>sendmail\<close> includes that of \<open>msg.as_string()\<close>, which is evaluated
  as its argument, inside the \<open>try\<close>. Setting the headers of the message never raises.
\<close>

record smtp_server =
  connect :: "ustr \<Rightarrow> int \<Rightarrow> exn option"
  starttls :: "exn option"
  login :: "ustr \<Rightarrow> ustr \<Rightarrow> exn option"
  sendmail :: "ustr \<Rightarrow> ustr list \<Rightarrow> MIMEText \<Rightarrow> exn option"
  quit :: "exn option"

text \<open>
  Lines 128 to 131, the \<open>with\<close> block. When the constructor raises, the block is not
  entered. Otherwise the three calls run until one raises, and leaving the block
  closes the session; an exception of the closing replaces the one of the block.
\<close>

definition smtp_session ::
  "smtp_server \<Rightarrow> ustr \<Rightarrow> int \<Rightarrow> ustr \<Rightarrow> ustr \<Rightarrow> ustr \<Rightarrow> ustr \<Rightarrow> MIMEText \<Rightarrow> exn option" where
  "smtp_session server host port user password from_email to_email msg =
     (case connect server host port of
        Some e \<Rightarrow> Some e
      | None \<Rightarrow>
          (let block =
             (case starttls server of
                Some e \<Rightarrow> Some e
              | None \<Rightarrow>
                  (case login server user password of
                     Some e \<Rightarrow> Some e
                   | None \<Rightarrow> sendmail server from_email [to_email] msg))
           in case quit server of Some e \<Rightarrow> Some e | None \<Rightarrow> block))"

definition apostrophe :: ustr where "apostrophe = [0x2019]"
definition en_dash :: ustr where "en_dash = [0x2013]"

definition subject :: ustr where
  "subject = ascii ''KMA Global '' @ en_dash @ ascii '' We'' @ apostrophe @
             ascii ''ve received your enquiry''"

definition body_of :: "ContactSubmission \<Rightarrow> ustr" where
  "body_of payload =
     ascii ''Hi '' @ name payload @ ascii '','' @ [10, 10] @
     ascii ''Thanks for reaching out to KMA Global. We'' @ apostrophe @
     ascii ''ve received your message and a consultant will get back to you shortly.'' @ [10, 10] @
     ascii ''Summary of your submission:'' @ [10] @
     en_dash @ ascii '' Email: '' @ email payload @ [10] @
     en_dash @ ascii '' Phone: '' @ or_else (phone payload) (ascii ''N/A'') @ [10] @
     en_dash @ ascii '' Business: '' @ or_else (business payload) (ascii ''N/A'') @ [10] @
     en_dash @ ascii '' Budget: '' @ or_else (budget payload) (ascii ''N/A'') @ [10, 10] @
     ascii ''If you'' @ apostrophe @
     ascii ''d like to book a call now, you can use our scheduling link: https://calendly.com/'' @
     [10, 10] @
     ascii ''Best regards,'' @ [10] @ ascii ''KMA Global''"

text \<open>
  What a request does to the outside, in the order it does it: the call of
  \<open>create_document\<close>, the call of the notifier, and the opening of an SMTP connection.
\<close>

datatype event =
  CreateDocument ustr ContactSubmission
| SendConfirmation ContactSubmission
| SmtpConnect ustr int

definition not_configured :: email_result where
  "not_configured = \<lparr> sent = False, reason = Some (ascii ''SMTP not configured'') \<rparr>"

text \<open>
  \<open>_send_confirmation_email\<close>. Two statements can raise outside the \<open>try\<close> of line 127.
  The port is read and converted on line 97, before the test of the configuration: a
  ValueError of the conversion leaves the function. \<open>MIMEText(body)\<close> on line 122
  encodes the body, which always holds characters outside ASCII, as UTF-8: a
  UnicodeEncodeError of the encoding leaves the function before a connection is
  opened. In the branch that sends, \<open>host\<close>, \<open>user\<close> and \<open>password\<close> are strings, which
  the pattern on the three of them expresses.
\<close>

definition send_confirmation_email ::
  "environ \<Rightarrow> smtp_server \<Rightarrow> ContactSubmission \<Rightarrow> (fault + email_result) \<times> event list" where
  "send_confirmation_email env server payload =
     (let host = env (ascii ''SMTP_HOST'') in
      case py_int (getenv_default env (ascii ''SMTP_PORT'') (ascii ''587'')) of
        Inl e \<Rightarrow> (Inl e, [])
      | Inr port \<Rightarrow>
          (let user = env (ascii ''SMTP_USER'');
               password = env (ascii ''SMTP_PASS'');
               from_email = getenv_default env (ascii ''SMTP_FROM'') (or_else user []);
               to_email = email payload
           in case (host, user, password) of
                (Some h, Some u, Some pw) \<Rightarrow>
                  if \<not> (truthy h \<and> truthy u \<and> truthy pw \<and> truthy from_email)
                  then (Inr not_configured, [])
                  else if \<not> mime_encodable (body_of payload)
                  then (Inl UnicodeEncodeError, [])
                  else
                    (let msg = \<lparr> body = body_of payload, Subject = subject,
                                 From = from_email, To = to_email \<rparr>
                     in case smtp_session server h port u pw from_email to_email msg of
                          None \<Rightarrow> (Inr \<lparr> sent = True, reason = None \<rparr>, [SmtpConnect h port])
                        | Some e \<Rightarrow>
                            (Inr \<lparr> sent = False, reason = Some (take 120 (str_exn e)) \<rparr>,
                             [SmtpConnect h port]))
              | _ \<Rightarrow> (Inr not_configured, [])))"

subsection \<open>The handler\<close>

record contact_response =
  ok :: bool
  doc_id :: "ustr option"
  email_status :: email_result
  message :: ustr

definition acknowledgment :: ustr where
  "acknowledgment = ascii ''Thanks. We'' @ apostrophe @
     ascii ''ve received your details and will be in touch shortly.''"

text \<open>
  \<open>create_document\<close> is imported from the module \<open>database\<close>: it returns the identifier
  of the stored document or raises. The handler \<open>submit_contact\<close> catches what it
  raises; the call of the notifier on line 82 stands outside any \<open>try\<close>.
\<close>

definition submit_contact ::
  "environ \<Rightarrow> (ustr \<Rightarrow> ContactSubmission \<Rightarrow> exn + ustr) \<Rightarrow> smtp_server \<Rightarrow> ContactSubmission
     \<Rightarrow> (fault + contact_response) \<times> event list" where
  "submit_contact env create_document server payload =
     (let stored = (case create_document (ascii ''contactsubmission'') payload of
                      Inr i \<Rightarrow> Some i
                    | Inl e \<Rightarrow> None);
          (email_result, events) = send_confirmation_email env server payload
      in (case email_result of
            Inl e \<Rightarrow> Inl e
          | Inr r \<Rightarrow> Inr \<lparr> ok = True, doc_id = stored, email_status = r,
                          message = acknowledgment \<rparr>,
          CreateDocument (ascii ''contactsubmission'') payload # SendConfirmation payload # events))"

subsection \<open>The endpoint\<close>

text \<open>
  The endpoint as the client sees it: a client error with the violations when the
  body is refused, a server fault when an exception is not caught, and the response
  of the handler otherwise.
\<close>

datatype http_result =
  ClientError "violation list"
| ServerFault fault
| Success contact_response

text \<open>
  The framework sends both the client error and the response as JSON encoded in
  UTF-8, and the encoding raises on a surrogate. The client error repeats, for every
  violation, the input that was refused: the whole body for a field that is missing,
  the value of the field otherwise. The response carries the identifier, the reason
  and the message.
\<close>

fun strings_of :: "json_field \<Rightarrow> ustr list" where
  "strings_of (Str s) = [s]"
| "strings_of Omitted = []"
| "strings_of Null = []"

definition body_strings :: "raw_submission \<Rightarrow> ustr list" where
  "body_strings raw =
     strings_of (raw_name raw) @ strings_of (raw_email raw) @ strings_of (raw_phone raw) @
     strings_of (raw_business raw) @ strings_of (raw_budget raw) @
     strings_of (raw_description raw) @ raw_other raw"

fun field_of :: "raw_submission \<Rightarrow> field \<Rightarrow> json_field" where
  "field_of raw Name = raw_name raw"
| "field_of raw Email = raw_email raw"
| "field_of raw Phone = raw_phone raw"
| "field_of raw Business = raw_business raw"
| "field_of raw Budget = raw_budget raw"
| "field_of raw Description = raw_description raw"

fun echoed :: "raw_submission \<Rightarrow> violation \<Rightarrow> ustr list" where
  "echoed raw (f, Missing) = body_strings raw"
| "echoed raw (f, c) = strings_of (field_of raw f)"

definition render_errors :: "raw_submission \<Rightarrow> violation list \<Rightarrow> http_result" where
  "render_errors raw vs =
     (if list_all utf8 (concat (map (echoed raw) vs)) then ClientError vs
      else ServerFault UnicodeEncodeError)"

fun opt_string :: "ustr option \<Rightarrow> ustr list" where
  "opt_string None = []"
| "opt_string (Some s) = [s]"

definition render_response :: "contact_response \<Rightarrow> http_result" where
  "render_response r =
     (if list_all utf8 (opt_string (doc_id r) @ opt_string (reason (email_status r)) @ [message r])
      then Success r else ServerFault UnicodeEncodeError)"

definition post_api_contact ::
  "(ustr \<Rightarrow> ustr option) \<Rightarrow> environ \<Rightarrow> (ustr \<Rightarrow> ContactSubmission \<Rightarrow> exn + ustr) \<Rightarrow> smtp_server
     \<Rightarrow> raw_submission \<Rightarrow> http_result \<times> event list" where
  "post_api_contact ev env create_document server raw =
     (case validate ev raw of
        Inl vs \<Rightarrow> (render_errors raw vs, [])
      | Inr payload \<Rightarrow>
          (case submit_contact env create_document server payload of
             (Inl e, events) \<Rightarrow> (ServerFault e, events)
           | (Inr r, events) \<Rightarrow> (render_response r, events)))"

section \<open>Scenarios\<close>

text \<open>
  Concrete inputs for the examples below: the two submissions of the scenarios of the
  specification, before and after validation, a submission whose name is one
  surrogate, a \<open>create_document\<close> that raises as it does without a database and one
  that returns an identifier holding a surrogate, a mail server that refuses the login
  with a long message, a complete mail configuration, and a database handle whose
  listing raises.
\<close>

definition jo_raw :: raw_submission where
  "jo_raw = \<lparr> raw_name = Str (ascii ''Jo''), raw_email = Str (ascii ''jo@example.com''),
              raw_phone = Omitted, raw_business = Omitted, raw_budget = Omitted,
              raw_description = Str (ascii ''Interested in services''), raw_other = [] \<rparr>"

definition jo :: ContactSubmission where
  "jo = \<lparr> name = ascii ''Jo'', email = ascii ''jo@example.com'',
          phone = None, business = None, budget = None,
          description = ascii ''Interested in services'' \<rparr>"



definition no_database :: "ustr \<Rightarrow> ContactSubmission \<Rightarrow> exn + ustr" where
  "no_database collection payload = Inl (Exception (ascii ''Database not available''))"

definition surrogate_database :: "ustr \<Rightarrow> ContactSubmission \<Rightarrow> exn + ustr" where
  "surrogate_database collection payload = Inr [0xD800]"

definition refusing_server :: smtp_server where
  "refusing_server =
     \<lparr> connect = (\<lambda>host port. None), starttls = None,
       login = (\<lambda>user password. Some (Exception (replicate 300 120))),
       sendmail = (\<lambda>from_email to_emails msg. None), quit = None \<rparr>"

definition mail_env :: environ where
  "mail_env = [ascii ''SMTP_HOST'' \<mapsto> ascii ''smtp.example.com'',
               ascii ''SMTP_USER'' \<mapsto> ascii ''kma'',
               ascii ''SMTP_PASS'' \<mapsto> ascii ''secret'']"

definition flaky_db :: db_handle where
  "flaky_db = \<lparr> db_name = Present (ascii ''kma''),
                 list_collection_names = Inl (Exception (replicate 200 33)) \<rparr>"

section \<open>Properties of the diagnostic endpoint\<close>

lemma test_database_cases:
  "test_database env None =
     initial_response\<lparr> database := warning_sign @ ascii '' Available but not initialized'' \<rparr>"
  "name_probe env d = Inl e \<Longrightarrow>
     test_database env (Some d) =
       (url_probe env initial_response)
         \<lparr> database := cross_mark @ ascii '' Error: '' @ take 80 (str_exn e) \<rparr>"
  "name_probe env d = Inr n \<Longrightarrow>
     test_database env (Some d) =
       list_probe d ((url_probe env initial_response)\<lparr> database_name := n \<rparr>)"
  by (simp_all add: test_database_def test_body_def Let_def)

lemma collections_bounded:
  "length (collections (test_database env db)) \<le> 10"
proof (cases db)
  case None
  then show ?thesis
    by (simp add: test_database_cases(1) initial_response_def)
next
  case (Some d)
  show ?thesis
  proof (cases "name_probe env d")
    case (Inl e)
    then show ?thesis
      by (simp add: Some test_database_cases(2) url_probe_def initial_response_def)
  next
    case (Inr n)
    then show ?thesis
      by (simp add: Some test_database_cases(3) list_probe_def url_probe_def initial_response_def
          split: sum.splits)
  qed
qed

lemma backend_untouched:
  "backend (test_database env db) = backend initial_response"
proof (cases db)
  case None
  then show ?thesis
    by (simp add: test_database_cases(1))
next
  case (Some d)
  show ?thesis
  proof (cases "name_probe env d")
    case (Inl e)
    then show ?thesis
      by (simp add: Some test_database_cases(2) url_probe_def)
  next
    case (Inr n)
    then show ?thesis
      by (simp add: Some test_database_cases(3) list_probe_def url_probe_def split: sum.splits)
  qed
qed

lemma flaky_db_probes:
  "name_probe Map.empty flaky_db = Inr (ascii ''kma'')"
  "list_collection_names flaky_db = Inl (Exception (replicate 200 33))"
  by (simp_all add: name_probe_def flaky_db_def)

text \<open>
  C6. For every environment and every database handle, \<open>GET /test\<close> returns the whole
  diagnostic object: the function is total, every exception of a probe being caught.
  Its \<open>collections\<close> field is a list of at most 10 names. A probe that raises costs
  one field only: when the listing of the collections raises, the response is the one
  built so far with \<open>database\<close> replaced by an error string, and when the read of the
  handle's name raises, it is the one built so far with \<open>database\<close> replaced by an
  error string.
\<close>

theorem test_database_degrades:
  "length (collections (test_database env db)) \<le> 10 \<and>
   backend (test_database env db) = backend initial_response \<and>
   (\<forall>d e n. db = Some d \<and> name_probe env d = Inr n \<and> list_collection_names d = Inl e \<longrightarrow>
      test_database env db =
        (url_probe env initial_response)
          \<lparr> database_name := n,
            database := warning_sign @ ascii '' Connected but Error: '' @ take 80 (str_exn e) \<rparr>) \<and>
   (\<forall>d e. db = Some d \<and> name_probe env d = Inl e \<longrightarrow>
      test_database env db =
        (url_probe env initial_response)
          \<lparr> database := cross_mark @ ascii '' Error: '' @ take 80 (str_exn e) \<rparr>)"
proof (intro conjI allI impI)
  show "length (collections (test_database env db)) \<le> 10"
    by (rule collections_bounded)
next
  show "backend (test_database env db) = backend initial_response"
    by (rule backend_untouched)
next
  fix d e n
  assume "db = Some d \<and> name_probe env d = Inr n \<and> list_collection_names d = Inl e"
  then show "test_database env db =
        (url_probe env initial_response)
          \<lparr> database_name := n,
            database := warning_sign @ ascii '' Connected but Error: '' @ take 80 (str_exn e) \<rparr>"
    by (simp add: test_database_cases(3) list_probe_def)
next
  fix d e
  assume "db = Some d \<and> name_probe env d = Inl e"
  then show "test_database env db =
        (url_probe env initial_response)
          \<lparr> database := cross_mark @ ascii '' Error: '' @ take 80 (str_exn e) \<rparr>"
    by (simp add: test_database_cases(2))
qed

theorem test_database_degrades_witness:
  "length (collections (test_database Map.empty (Some flaky_db))) \<le> 10 \<and>
   database (test_database Map.empty (Some flaky_db)) =
     warning_sign @ ascii '' Connected but Error: '' @ replicate 80 33 \<and>
   database_name (test_database Map.empty (Some flaky_db)) = ascii ''kma'' \<and>
   collections (test_database Map.empty (Some flaky_db)) = []"
proof -
  from test_database_degrades [of Map.empty "Some flaky_db"] flaky_db_probes
  have "length (collections (test_database Map.empty (Some flaky_db))) \<le> 10"
    and "test_database Map.empty (Some flaky_db) =
        (url_probe Map.empty initial_response)
          \<lparr> database_name := ascii ''kma'',
            database := warning_sign @ ascii '' Connected but Error: '' @
              take 80 (str_exn (Exception (replicate 200 33))) \<rparr>"
    by blast+
  then show ?thesis
    by (simp add: url_probe_def initial_response_def)
qed

text \<open>
  C8. When the database handle is None, the diagnostic response reports both
  \<open>database_url\<close> and \<open>database_name\<close> as not set, whatever the environment holds: the
  environment is read only in the branch where a handle exists.
\<close>

theorem test_database_without_handle:
  "database_url (test_database env None) = cross_mark @ ascii '' Not Set'' \<and>
   database_name (test_database env None) = cross_mark @ ascii '' Not Set'' \<and>
   test_database env None = test_database Map.empty None"
  by (simp add: test_database_cases(1) initial_response_def not_set_def)

text \<open>
  C9. When the handle exists and the listing of the collections raises, the handler
  of that exception writes the \<open>database\<close> field and nothing else. In the response,
  \<open>database\<close> is the error string, \<open>connection_status\<close> is still "Not Connected" and
  \<open>collections\<close> is still empty, as initialised; \<open>backend\<close> is as initialised too, and
  \<open>database_url\<close> and \<open>database_name\<close> are what the probes before the listing wrote.
\<close>

theorem listing_failure_frame:
  assumes "list_collection_names d = Inl e" and "name_probe env d = Inr n"
  shows "list_probe d r =
           r\<lparr> database := warning_sign @ ascii '' Connected but Error: '' @ take 80 (str_exn e) \<rparr> \<and>
         test_database env (Some d) =
           \<lparr> backend = backend initial_response,
             database = warning_sign @ ascii '' Connected but Error: '' @ take 80 (str_exn e),
             database_url = database_url (url_probe env initial_response),
             database_name = n,
             connection_status = connection_status initial_response,
             collections = collections initial_response \<rparr> \<and>
         connection_status (test_database env (Some d)) = ascii ''Not Connected'' \<and>
         collections (test_database env (Some d)) = []"
  using assms
  by (simp add: test_database_cases(3) list_probe_def url_probe_def initial_response_def)

theorem listing_failure_frame_witness:
  "connection_status (test_database Map.empty (Some flaky_db)) = ascii ''Not Connected'' \<and>
   collections (test_database Map.empty (Some flaky_db)) = [] \<and>
   backend (test_database Map.empty (Some flaky_db)) = check_mark @ ascii '' Running'' \<and>
   database_url (test_database Map.empty (Some flaky_db)) = cross_mark @ ascii '' Not Set''"
  using listing_failure_frame [OF flaky_db_probes(2) flaky_db_probes(1)]
  by (simp add: url_probe_def initial_response_def not_set_def)

section \<open>Properties of the contact endpoint\<close>

subsection \<open>Validation\<close>

lemma validate_jo: "validate Some jo_raw = Inr jo"
  by (simp add: validate_def jo_raw_def jo_def ascii_def utf8_def)







subsection \<open>The port of the mail server\<close>

lemma port_default:
  "py_int (getenv_default Map.empty (ascii ''SMTP_PORT'') (ascii ''587'')) = Inr 587"
  by (simp add: getenv_default_def py_int_def ascii_def strip_def is_space_def is_digit_def
      decimal_value_def decimal_zeros_def)

lemma port_abc:
  "py_int (getenv_default [ascii ''SMTP_PORT'' \<mapsto> ascii ''abc''] (ascii ''SMTP_PORT'') (ascii ''587''))
     = Inl (ValueError (ascii ''abc''))"
  by (simp add: getenv_default_def py_int_def ascii_def strip_def is_space_def is_digit_def
      decimal_value_def decimal_zeros_def)

lemma port_blank:
  "py_int (getenv_default [ascii ''SMTP_PORT'' \<mapsto> []] (ascii ''SMTP_PORT'') (ascii ''587''))
     = Inl (ValueError [])"
  by (simp add: getenv_default_def py_int_def strip_def)

lemma mail_env_lookups:
  "mail_env (ascii ''SMTP_HOST'') = Some (ascii ''smtp.example.com'')"
  "mail_env (ascii ''SMTP_USER'') = Some (ascii ''kma'')"
  "mail_env (ascii ''SMTP_PASS'') = Some (ascii ''secret'')"
  "mail_env (ascii ''SMTP_FROM'') = None"
  "mail_env (ascii ''SMTP_PORT'') = None"
  by (simp_all add: mail_env_def ascii_def)

lemma jo_encodable: "mime_encodable (body_of jo)"
  by (simp add: body_of_def jo_def mime_encodable_def ascii_def apostrophe_def en_dash_def)

text \<open>
  When the conversion of the port raises, the ValueError leaves the notifier and the
  handler, after the call of \<open>create_document\<close>. When the port converts and the body
  of the mail can be encoded, the notifier returns a result and the handler a
  response.
\<close>

lemma send_confirmation_email_raises:
  assumes "py_int (getenv_default env (ascii ''SMTP_PORT'') (ascii ''587'')) = Inl e"
  shows "send_confirmation_email env server payload = (Inl e, [])"
  using assms by (simp add: send_confirmation_email_def)

lemma send_confirmation_email_returns:
  assumes "py_int (getenv_default env (ascii ''SMTP_PORT'') (ascii ''587'')) = Inr port"
    and "mime_encodable (body_of payload)"
  shows "\<exists>r events. send_confirmation_email env server payload = (Inr r, events)"
  using assms
  by (simp add: send_confirmation_email_def Let_def split: option.splits)

lemma submit_contact_raises:
  assumes "py_int (getenv_default env (ascii ''SMTP_PORT'') (ascii ''587'')) = Inl e"
  shows "submit_contact env create_document server payload =
           (Inl e, [CreateDocument (ascii ''contactsubmission'') payload, SendConfirmation payload])"
  by (simp add: submit_contact_def send_confirmation_email_raises [OF assms])

lemma submit_contact_returns:
  assumes "py_int (getenv_default env (ascii ''SMTP_PORT'') (ascii ''587'')) = Inr port"
    and "mime_encodable (body_of payload)"
  shows "\<exists>r events. submit_contact env create_document server payload =
           (Inr \<lparr> ok = True,
                  doc_id = (case create_document (ascii ''contactsubmission'') payload of
                              Inr i \<Rightarrow> Some i | Inl e \<Rightarrow> None),
                  email_status = r, message = acknowledgment \<rparr>,
            CreateDocument (ascii ''contactsubmission'') payload # SendConfirmation payload # events)"
proof -
  from send_confirmation_email_returns [OF assms]
  obtain r events where "send_confirmation_email env server payload = (Inr r, events)"
    by blast
  then show ?thesis
    by (simp add: submit_contact_def)
qed

subsection \<open>The notifier\<close>

lemma failure_reason_bounded:
  assumes "send_confirmation_email env server payload = (Inr r, events)" and "\<not> sent r"
  shows "\<exists>s. reason r = Some s \<and> length s \<le> 120"
  using assms
  by (auto simp: send_confirmation_email_def Let_def not_configured_def ascii_def
      split: sum.splits option.splits if_splits)

text \<open>
  C7. When the notifier reaches the SMTP session (the port converts, the mail
  configuration is complete, the message is built) and the session raises, in the
  connection, the TLS handshake, the login, the sending or the closing, the notifier
  returns \<open>sent\<close> false with the first 120 characters of the message of the exception
  as the reason: the reason is never longer than 120, however long the message.
\<close>

theorem transport_failure_reason_truncated:
  assumes port: "py_int (getenv_default env (ascii ''SMTP_PORT'') (ascii ''587'')) = Inr port"
    and host: "env (ascii ''SMTP_HOST'') = Some h" "truthy h"
    and user: "env (ascii ''SMTP_USER'') = Some u" "truthy u"
    and password: "env (ascii ''SMTP_PASS'') = Some pw" "truthy pw"
    and sender: "from_email = getenv_default env (ascii ''SMTP_FROM'') (or_else (Some u) [])"
      "truthy from_email"
    and built: "mime_encodable (body_of payload)"
    and raised: "smtp_session server h port u pw from_email (email payload)
        \<lparr> body = body_of payload, Subject = subject, From = from_email, To = email payload \<rparr>
          = Some e"
  shows "send_confirmation_email env server payload =
           (Inr \<lparr> sent = False, reason = Some (take 120 (str_exn e)) \<rparr>, [SmtpConnect h port]) \<and>
         length (take 120 (str_exn e)) \<le> 120"
  using assms by (simp add: send_confirmation_email_def Let_def)

theorem transport_failure_reason_truncated_witness:
  "send_confirmation_email mail_env refusing_server jo =
     (Inr \<lparr> sent = False, reason = Some (replicate 120 120) \<rparr>,
      [SmtpConnect (ascii ''smtp.example.com'') 587]) \<and>
   length (str_exn (Exception (replicate 300 120))) = 300"
proof -
  have "getenv_default mail_env (ascii ''SMTP_PORT'') (ascii ''587'') =
      getenv_default Map.empty (ascii ''SMTP_PORT'') (ascii ''587'')"
    by (simp add: getenv_default_def mail_env_lookups)
  then have port: "py_int (getenv_default mail_env (ascii ''SMTP_PORT'') (ascii ''587'')) = Inr 587"
    by (simp add: port_default)
  have t: "truthy (ascii ''smtp.example.com'')" "truthy (ascii ''kma'')" "truthy (ascii ''secret'')"
    by (simp_all add: truthy_def ascii_def)
  have sender: "ascii ''kma'' =
      getenv_default mail_env (ascii ''SMTP_FROM'') (or_else (Some (ascii ''kma'')) [])"
    by (simp add: getenv_default_def mail_env_lookups t)
  have raised: "smtp_session refusing_server (ascii ''smtp.example.com'') 587 (ascii ''kma'')
        (ascii ''secret'') (ascii ''kma'') (email jo)
        \<lparr> body = body_of jo, Subject = subject, From = ascii ''kma'', To = email jo \<rparr>
          = Some (Exception (replicate 300 120))"
    by (simp add: smtp_session_def refusing_server_def)
  from transport_failure_reason_truncated
    [OF port mail_env_lookups(1) t(1) mail_env_lookups(2) t(2) mail_env_lookups(3) t(3)
        sender t(2) jo_encodable raised]
  show ?thesis
    by simp
qed

text \<open>
  C4, as the code has it. For a valid submission, when the port converts (SMTP_PORT is
  not set, or holds a literal that \<open>int\<close> accepts) and one of SMTP_HOST, SMTP_USER,
  SMTP_PASS is not set or empty, or the from-address (SMTP_FROM, by default the user)
  is empty, the notifier returns \<open>sent\<close> false with the reason "SMTP not configured"
  and opens no connection. The request then succeeds with \<open>ok\<close> true, provided the
  identifier that \<open>create_document\<close> returned, if it returned one, holds no surrogate.
\<close>

theorem unconfigured_mail_reported:
  assumes valid: "validate ev raw = Inr payload"
    and port: "py_int (getenv_default env (ascii ''SMTP_PORT'') (ascii ''587'')) = Inr port"
    and missing: "\<not> truthy_opt (env (ascii ''SMTP_HOST'')) \<or>
                  \<not> truthy_opt (env (ascii ''SMTP_USER'')) \<or>
                  \<not> truthy_opt (env (ascii ''SMTP_PASS'')) \<or>
                  \<not> truthy (getenv_default env (ascii ''SMTP_FROM'')
                              (or_else (env (ascii ''SMTP_USER'')) []))"
    and stored: "\<forall>i. create_document (ascii ''contactsubmission'') payload = Inr i \<longrightarrow> utf8 i"
  shows "send_confirmation_email env server payload =
           (Inr \<lparr> sent = False, reason = Some (ascii ''SMTP not configured'') \<rparr>, []) \<and>
         post_api_contact ev env create_document server raw =
           (Success \<lparr> ok = True,
                      doc_id = (case create_document (ascii ''contactsubmission'') payload of
                                  Inr i \<Rightarrow> Some i | Inl e \<Rightarrow> None),
                      email_status =
                        \<lparr> sent = False, reason = Some (ascii ''SMTP not configured'') \<rparr>,
                      message = acknowledgment \<rparr>,
            [CreateDocument (ascii ''contactsubmission'') payload, SendConfirmation payload])"
proof -
  from port missing
  have notify: "send_confirmation_email env server payload = (Inr not_configured, [])"
    by (auto simp: send_confirmation_email_def Let_def split: option.splits)
  have encodable: "utf8 (ascii ''SMTP not configured'')" "utf8 acknowledgment"
    by (simp_all add: utf8_def ascii_def acknowledgment_def apostrophe_def)
  from stored have "list_all utf8 (opt_string
      (case create_document (ascii ''contactsubmission'') payload of
         Inr i \<Rightarrow> Some i | Inl e \<Rightarrow> None))"
    by (simp split: sum.splits)
  with notify encodable show ?thesis
    by (simp add: post_api_contact_def valid submit_contact_def not_configured_def
        render_response_def)
qed

theorem unconfigured_mail_reported_witness:
  "post_api_contact Some Map.empty no_database refusing_server jo_raw =
     (Success \<lparr> ok = True, doc_id = None,
                email_status = \<lparr> sent = False, reason = Some (ascii ''SMTP not configured'') \<rparr>,
                message = acknowledgment \<rparr>,
      [CreateDocument (ascii ''contactsubmission'') jo, SendConfirmation jo])"
proof -
  have missing: "\<not> truthy_opt (Map.empty (ascii ''SMTP_HOST'')) \<or>
                  \<not> truthy_opt (Map.empty (ascii ''SMTP_USER'')) \<or>
                  \<not> truthy_opt (Map.empty (ascii ''SMTP_PASS'')) \<or>
                  \<not> truthy (getenv_default Map.empty (ascii ''SMTP_FROM'')
                              (or_else (Map.empty (ascii ''SMTP_USER'')) []))"
    by simp
  have stored: "\<forall>i. no_database (ascii ''contactsubmission'') jo = Inr i \<longrightarrow> utf8 i"
    by (simp add: no_database_def)
  from unconfigured_mail_reported
    [where create_document = no_database and server = refusing_server,
     OF validate_jo port_default missing stored]
  show ?thesis
    by (simp add: no_database_def)
qed

text \<open>
  The claim C4 as stated fails in three ways. Without any mail configuration the
  reason is "SMTP not configured", not "not configured". With SMTP_PORT set to \<open>abc\<close>
  and nothing else configured, the notifier raises instead of returning a result. And
  when \<open>create_document\<close> returns an identifier that holds a surrogate, the response
  cannot be encoded and the request ends in a server fault.
\<close>

theorem unconfigured_reason_counterexample:
  "fst (send_confirmation_email Map.empty refusing_server jo) \<noteq>
     Inr \<lparr> sent = False, reason = Some (ascii ''not configured'') \<rparr> \<and>
   fst (send_confirmation_email [ascii ''SMTP_PORT'' \<mapsto> ascii ''abc''] refusing_server jo) =
     Inl (ValueError (ascii ''abc'')) \<and>
   fst (post_api_contact Some Map.empty surrogate_database refusing_server jo_raw) =
     ServerFault UnicodeEncodeError"
proof -
  have notify: "send_confirmation_email Map.empty refusing_server jo = (Inr not_configured, [])"
    by (simp add: send_confirmation_email_def Let_def port_default)
  then have "fst (send_confirmation_email Map.empty refusing_server jo) \<noteq>
     Inr \<lparr> sent = False, reason = Some (ascii ''not configured'') \<rparr>"
    by (simp add: not_configured_def ascii_def)
  moreover from notify
  have "fst (post_api_contact Some Map.empty surrogate_database refusing_server jo_raw) =
     ServerFault UnicodeEncodeError"
    by (simp add: post_api_contact_def validate_jo submit_contact_def surrogate_database_def
        render_response_def utf8_def)
  ultimately show ?thesis
    by (simp add: send_confirmation_email_raises [OF port_abc])
qed

subsection \<open>The handler and a port that does not convert\<close>

text \<open>
  C1, at the input where the code leaves it. The submission of the scenario is valid;
  with SMTP_PORT set to \<open>abc\<close> the conversion on line 97 raises ValueError outside
  every \<open>try\<close>, so the exception leaves the notifier and the handler: the client gets a
  server fault, not a response, whatever \<open>create_document\<close> and the mail server do.
\<close>

theorem port_error_escapes_handler:
  "post_api_contact Some [ascii ''SMTP_PORT'' \<mapsto> ascii ''abc''] create_document server jo_raw =
     (ServerFault (ValueError (ascii ''abc'')),
      [CreateDocument (ascii ''contactsubmission'') jo, SendConfirmation jo])"
  by (simp add: post_api_contact_def validate_jo submit_contact_raises [OF port_abc])

text \<open>
  C3, at the input where the code leaves it. The submission is valid and
  \<open>create_document\<close> raises; the handler catches that and calls the notifier. With
  SMTP_PORT set to the empty string the notifier raises, and the request ends in a
  server fault: there is no response with \<open>ok\<close> true and a null identifier.
\<close>

theorem storage_failure_with_port_error:
  "no_database (ascii ''contactsubmission'') jo = Inl (Exception (ascii ''Database not available'')) \<and>
   post_api_contact Some [ascii ''SMTP_PORT'' \<mapsto> []] no_database server jo_raw =
     (ServerFault (ValueError []),
      [CreateDocument (ascii ''contactsubmission'') jo, SendConfirmation jo])"
  by (simp add: post_api_contact_def validate_jo submit_contact_raises [OF port_blank] no_database_def)

text \<open>
  C5, at the input where the code leaves it. For the valid submission of the scenario
  and SMTP_PORT set to \<open>abc\<close>, the answer of the endpoint is no response that carries
  the acknowledgment, whatever its other fields.
\<close>

theorem acknowledgment_missing_on_port_error:
  "fst (post_api_contact Some [ascii ''SMTP_PORT'' \<mapsto> ascii ''abc''] create_document server jo_raw)
     \<noteq> Success \<lparr> ok = flag, doc_id = stored, email_status = mail, message = acknowledgment \<rparr>"
  by (simp add: post_api_contact_def validate_jo submit_contact_raises [OF port_abc])

text \<open>
  C10, at the inputs where the code leaves it. Two runs on the same valid submission,
  with the same \<open>create_document\<close> and the same mail server, which differ in SMTP_PORT
  only: the first answers with \<open>ok\<close> true and the acknowledgment, the second with a
  server fault that has neither field.
\<close>

theorem runs_distinguished_by_port:
  "fst (post_api_contact Some Map.empty no_database refusing_server jo_raw) =
     Success \<lparr> ok = True, doc_id = None, email_status = not_configured,
               message = acknowledgment \<rparr> \<and>
   fst (post_api_contact Some [ascii ''SMTP_PORT'' \<mapsto> []] no_database refusing_server jo_raw) =
     ServerFault (ValueError [])"
proof -
  have "send_confirmation_email Map.empty refusing_server jo = (Inr not_configured, [])"
    by (simp add: send_confirmation_email_def Let_def port_default)
  moreover have "utf8 (ascii ''SMTP not configured'')" "utf8 acknowledgment"
    by (simp_all add: utf8_def ascii_def acknowledgment_def apostrophe_def)
  ultimately have "fst (post_api_contact Some Map.empty no_database refusing_server jo_raw) =
     Success \<lparr> ok = True, doc_id = None, email_status = not_configured,
               message = acknowledgment \<rparr>"
    by (simp add: post_api_contact_def validate_jo submit_contact_def no_database_def
        render_response_def not_configured_def)
  then show ?thesis
    by (simp add: post_api_contact_def validate_jo submit_contact_raises [OF port_blank])
qed

end
